theory Spec2Isabelle
  imports Complex_Main "HOL-Library.Sublist"
begin

section \<open>Python values, exceptions and console output\<close>

text \<open>
  The module \<^verbatim>\<open>pytranscoder/media.py\<close> is embedded function by function. Python
  strings are modelled as \<^typ>\<open>string\<close> and the model is meant for ASCII text: the
  character classes below are the ASCII part of Python's Unicode-aware classes. A value
  that is either a \<^verbatim>\<open>str\<close> or \<^verbatim>\<open>None\<close> (a regex group, a
  track attribute, an optional profile setting) is a \<^typ>\<open>string option\<close>.

  A call either returns a value, raises an exception, or leaves the part of Python that
  this development gives a meaning to (only \<^verbatim>\<open>eval\<close> on text that is not an
  integer comparison does so). Lines written with \<^verbatim>\<open>print\<close> are collected in
  a list that is returned next to the outcome.
\<close>

datatype exn =
    ValueError string
  | TypeError
  | IndexError
  | AttributeError string
  | OSError string
  | RecursionError

datatype 'a outcome = Return 'a | Raise exn | Unmodelled

fun bind :: "'a outcome \<Rightarrow> ('a \<Rightarrow> 'b outcome) \<Rightarrow> 'b outcome" where
  "bind (Return x) f = f x"
| "bind (Raise e) f = Raise e"
| "bind Unmodelled f = Unmodelled"

text \<open>\<^verbatim>\<open>str(n)\<close> for a non-negative and for an arbitrary integer.\<close>

definition digit_char :: "nat \<Rightarrow> char" where
  "digit_char d = ''0123456789'' ! d"

function str_nat :: "nat \<Rightarrow> string" where
  "str_nat n = (if n < 10 then [digit_char n] else str_nat (n div 10) @ [digit_char (n mod 10)])"
  by pat_completeness auto
termination
  by (relation "measure id") auto

declare str_nat.simps [simp del]

definition str_int :: "int \<Rightarrow> string" where
  "str_int i = (if i < 0 then CHR ''-'' # str_nat (nat (- i)) else str_nat (nat i))"

text \<open>An f-string field holding a \<^verbatim>\<open>str\<close> or \<^verbatim>\<open>None\<close>.\<close>

fun fmt_str :: "string option \<Rightarrow> string" where
  "fmt_str None = ''None''"
| "fmt_str (Some s) = s"

text \<open>\<^verbatim>\<open>x in xs\<close> for a \<^verbatim>\<open>str\<close>-or-\<^verbatim>\<open>None\<close> value and a list of strings.\<close>

fun py_in :: "string option \<Rightarrow> string list \<Rightarrow> bool" where
  "py_in None xs = False"
| "py_in (Some x) xs = (x \<in> set xs)"

section \<open>Track descriptors\<close>

text \<open>
  \<^verbatim>\<open>SubtitleTrack\<close> stores \<^verbatim>\<open>track\<close> and \<^verbatim>\<open>lang\<close>;
  \<^verbatim>\<open>AudioTrack\<close> stores the same two attributes plus \<^verbatim>\<open>format\<close> and
  \<^verbatim>\<open>default\<close>. The mapper reads both kinds through the same attribute names, so
  the audio record extends the subtitle record. Every attribute holds what the group
  dictionary of the regular expression held: a string or \<^verbatim>\<open>None\<close>.
\<close>

record SubtitleTrack =
  track :: "string option"
  lang :: "string option"

record AudioTrack = SubtitleTrack +
  format :: "string option"
  default :: "string option"

definition track_id :: "'a SubtitleTrack_scheme \<Rightarrow> string option" where
  "track_id self = track self"

definition language :: "'a SubtitleTrack_scheme \<Rightarrow> string option" where
  "language self = lang self"

definition is_default :: "AudioTrack \<Rightarrow> bool" where
  "is_default self = (default self = Some ''default'')"

text \<open>
  The property \<^verbatim>\<open>codec\<close> has the body \<^verbatim>\<open>return self.codec\<close>: it calls
  itself. As a partial function its value is \<open>None\<close> where the call does not return.
  The interpreter bounds the depth of the call stack; \<open>codec_limited\<close> is the same
  accessor under a stack that has room for \<open>depth\<close> more frames.
\<close>

partial_function (option) codec :: "AudioTrack \<Rightarrow> string option option" where
  "codec self = codec self"

fun codec_limited :: "nat \<Rightarrow> AudioTrack \<Rightarrow> string option outcome" where
  "codec_limited 0 self = Raise RecursionError"
| "codec_limited (Suc depth) self = codec_limited depth self"

section \<open>The media description\<close>

text \<open>
  \<open>info\<close> is the dictionary that \<^verbatim>\<open>parse_details\<close> hands to the constructor.
  The constructor sets \<^verbatim>\<open>valid\<close> and, for \<^verbatim>\<open>None\<close>, returns at once:
  such an object has no other attribute. The file size is a Python float; it is kept as
  the real number it stands for and takes part in no comparison here.
\<close>

record info =
  path :: string
  vcodec :: "string option"
  stream :: "string option"
  res_height :: int
  res_width :: int
  runtime :: int
  filesize_mb :: real
  fps :: int
  colorspace :: "string option"
  audio :: "AudioTrack list"
  subtitle :: "SubtitleTrack list"

datatype MediaInfo = MediaInfo "info option"

fun valid :: "MediaInfo \<Rightarrow> bool" where
  "valid (MediaInfo i) = (i \<noteq> None)"

datatype pyval =
    PyBool bool
  | PyInt int
  | PyFloat real
  | PyStr "string option"
  | PyAudio "AudioTrack list"
  | PySubtitle "SubtitleTrack list"

text \<open>The instance dictionary \<^verbatim>\<open>self.__dict__\<close>, as the constructor fills it.\<close>

fun attrs :: "MediaInfo \<Rightarrow> (string \<times> pyval) list" where
  "attrs (MediaInfo None) = [(''valid'', PyBool False)]"
| "attrs (MediaInfo (Some i)) =
     [(''valid'', PyBool True),
      (''path'', PyStr (Some (path i))),
      (''vcodec'', PyStr (vcodec i)),
      (''stream'', PyStr (stream i)),
      (''res_height'', PyInt (res_height i)),
      (''res_width'', PyInt (res_width i)),
      (''runtime'', PyInt (runtime i)),
      (''filesize_mb'', PyFloat (filesize_mb i)),
      (''fps'', PyInt (fps i)),
      (''colorspace'', PyStr (colorspace i)),
      (''audio'', PyAudio (audio i)),
      (''subtitle'', PySubtitle (subtitle i))]"

definition getattr :: "MediaInfo \<Rightarrow> string \<Rightarrow> pyval outcome" where
  "getattr self name =
     (case map_of (attrs self) name of
        None \<Rightarrow> Raise (AttributeError name)
      | Some v \<Rightarrow> Return v)"

section \<open>The stream mapper\<close>

text \<open>
  Modelled from the spec: the class \<^verbatim>\<open>Profile\<close> is imported from
  \<^verbatim>\<open>pytranscoder.profile\<close>, which is not among the sources. The record holds what
  its six read operations return: language sequences for inclusion, an exclusion
  sequence or \<^verbatim>\<open>None\<close> (the mapper replaces \<^verbatim>\<open>None\<close> by the empty list),
  and optional override languages.
\<close>

record Profile =
  excluded_audio :: "string list option"
  excluded_subtitles :: "string list option"
  included_audio :: "string list"
  included_subtitles :: "string list"
  default_audio :: "string option"
  default_subtitle :: "string option"

text \<open>
  The loop of \<^verbatim>\<open>_map_audio_streams\<close> over the streams. Its state is
  \<^verbatim>\<open>seq_list\<close>, \<^verbatim>\<open>mapped\<close> and \<^verbatim>\<open>default_reassign\<close>;
  \<open>includes\<close> is \<open>None\<close> after the normalisation of an empty list.
\<close>

fun audio_loop ::
  "string list \<Rightarrow> string list option \<Rightarrow> AudioTrack list \<Rightarrow>
   string list \<times> AudioTrack list \<times> bool \<Rightarrow> string list \<times> AudioTrack list \<times> bool" where
  "audio_loop excludes includes [] st = st"
| "audio_loop excludes includes (s # ss) (seq_list, mapped, default_reassign) =
     (let stream_lang = lang s in
      if (case includes of None \<Rightarrow> False | Some inc \<Rightarrow> \<not> py_in stream_lang inc) then
        audio_loop excludes includes ss
          (seq_list, mapped, if is_default s then True else default_reassign)
      else if py_in stream_lang excludes then
        audio_loop excludes includes ss
          (seq_list, mapped, if is_default s then True else default_reassign)
      else
        audio_loop excludes includes ss
          (seq_list @ [''-map'', ''0:'' @ fmt_str (track_id s)], mapped @ [s], default_reassign))"

text \<open>The loop \<^verbatim>\<open>for i, s in enumerate(mapped)\<close>, entered at position \<open>i\<close>.\<close>

fun disposition_loop :: "string \<Rightarrow> nat \<Rightarrow> AudioTrack list \<Rightarrow> string list \<Rightarrow> string list" where
  "disposition_loop defl i [] seq_list = seq_list"
| "disposition_loop defl i (s # ss) seq_list =
     disposition_loop defl (Suc i) ss
       (if lang s = Some defl
        then seq_list @ [''-disposition:a:'' @ str_nat i, ''default'']
        else seq_list)"

definition map_audio_streams ::
  "AudioTrack list \<Rightarrow> string list option \<Rightarrow> string list option \<Rightarrow> string option \<Rightarrow>
   string list \<times> string list" where
  "map_audio_streams streams excludes includes defl =
     (let excludes = (case excludes of None \<Rightarrow> [] | Some e \<Rightarrow> e);
          includes = (case includes of None \<Rightarrow> None | Some inc \<Rightarrow> if inc = [] then None else Some inc);
          (seq_list, mapped, default_reassign) = audio_loop excludes includes streams ([], [], False)
      in if default_reassign then
           (case defl of
              None \<Rightarrow>
                ([''Warning: A default stream will be removed but no default language specified to replace it''],
                 seq_list)
            | Some d \<Rightarrow> ([], disposition_loop d 0 mapped seq_list))
         else ([], seq_list))"

fun subtitle_loop ::
  "string list \<Rightarrow> string list option \<Rightarrow> SubtitleTrack list \<Rightarrow>
   string list \<times> SubtitleTrack list \<Rightarrow> string list \<times> SubtitleTrack list" where
  "subtitle_loop excludes includes [] st = st"
| "subtitle_loop excludes includes (s # ss) (seq_list, mapped) =
     (let stream_lang = lang s in
      if (case includes of None \<Rightarrow> False | Some inc \<Rightarrow> \<not> py_in stream_lang inc) then
        subtitle_loop excludes includes ss (seq_list, mapped)
      else if py_in stream_lang excludes then
        subtitle_loop excludes includes ss (seq_list, mapped)
      else
        subtitle_loop excludes includes ss
          (seq_list @ [''-map'', ''0:'' @ fmt_str (track_id s)], mapped @ [s]))"

definition map_subtitle_streams ::
  "SubtitleTrack list \<Rightarrow> string list option \<Rightarrow> string list option \<Rightarrow> string option \<Rightarrow>
   string list" where
  "map_subtitle_streams streams excludes includes defl =
     (let excludes = (case excludes of None \<Rightarrow> [] | Some e \<Rightarrow> e);
          includes = (case includes of None \<Rightarrow> None | Some inc \<Rightarrow> if inc = [] then None else Some inc)
      in fst (subtitle_loop excludes includes streams ([], [])))"

text \<open>
  \<^verbatim>\<open>ffmpeg_streams\<close>. The shortcut is taken before any attribute of the object is
  read; past it, \<^verbatim>\<open>self.stream\<close> is the first attribute read, which an invalid
  object does not have.
\<close>

fun ffmpeg_streams :: "MediaInfo \<Rightarrow> Profile \<Rightarrow> string list \<times> string list outcome" where
  "ffmpeg_streams (MediaInfo self) profile =
     (let excl_audio = excluded_audio profile;
          excl_subtitle = excluded_subtitles profile;
          incl_audio = included_audio profile;
          incl_subtitle = included_subtitles profile;
          defl_audio = default_audio profile;
          defl_subtitle = default_subtitle profile;
          excl_audio = (case excl_audio of None \<Rightarrow> [] | Some e \<Rightarrow> e);
          excl_subtitle = (case excl_subtitle of None \<Rightarrow> [] | Some e \<Rightarrow> e)
      in if length incl_audio = 0 \<and> length excl_audio = 0 \<and>
            length incl_subtitle = 0 \<and> length excl_subtitle = 0
         then ([], Return [''-map'', ''0''])
         else (case self of
                 None \<Rightarrow> ([], Raise (AttributeError ''stream''))
               | Some i \<Rightarrow>
                   (let seq_list = [''-map'', ''0:'' @ fmt_str (stream i)];
                        (out, audio_streams) =
                           map_audio_streams (audio i) (Some excl_audio) (Some incl_audio) defl_audio;
                        subtitle_streams =
                           map_subtitle_streams (subtitle i) (Some excl_subtitle) (Some incl_subtitle)
                             defl_subtitle
                    in (out, Return (seq_list @ audio_streams @ subtitle_streams)))))"

section \<open>The predicate evaluator\<close>

text \<open>
  Character classes, for ASCII: \<^verbatim>\<open>\d\<close> and \<^verbatim>\<open>str.isnumeric\<close> accept the ten
  digits, \<^verbatim>\<open>\w\<close> letters, digits and the underscore, \<^verbatim>\<open>\s\<close> and the
  stripping done by \<^verbatim>\<open>int\<close> the characters 9 to 13, 28 to 31 and the blank.
\<close>

definition is_digit :: "char \<Rightarrow> bool" where
  "is_digit c = (48 \<le> (of_char c :: nat) \<and> (of_char c :: nat) \<le> 57)"

definition is_word :: "char \<Rightarrow> bool" where
  "is_word c =
     ((48 \<le> (of_char c :: nat) \<and> (of_char c :: nat) \<le> 57) \<or>
      (65 \<le> (of_char c :: nat) \<and> (of_char c :: nat) \<le> 90) \<or>
      (of_char c :: nat) = 95 \<or>
      (97 \<le> (of_char c :: nat) \<and> (of_char c :: nat) \<le> 122))"

definition is_space :: "char \<Rightarrow> bool" where
  "is_space c =
     ((9 \<le> (of_char c :: nat) \<and> (of_char c :: nat) \<le> 13) \<or>
      (28 \<le> (of_char c :: nat) \<and> (of_char c :: nat) \<le> 32))"

definition isnumeric :: "string \<Rightarrow> bool" where
  "isnumeric s = (s \<noteq> [] \<and> list_all is_digit s)"

text \<open>\<^verbatim>\<open>s.split(c)\<close> for a separator of one character.\<close>

fun split_on :: "char \<Rightarrow> string \<Rightarrow> string list" where
  "split_on c [] = [[]]"
| "split_on c (x # xs) =
     (if x = c then [] # split_on c xs
      else (case split_on c xs of
              [] \<Rightarrow> [[x]]
            | w # ws \<Rightarrow> (x # w) # ws))"

definition digit_val :: "char \<Rightarrow> nat" where
  "digit_val c = of_char c - 48"

definition nat_of_digits :: "string \<Rightarrow> nat" where
  "nat_of_digits ds = foldl (\<lambda>a c. 10 * a + digit_val c) 0 ds"

definition py_strip :: "string \<Rightarrow> string" where
  "py_strip s = rev (dropWhile is_space (rev (dropWhile is_space s)))"

text \<open>
  \<^verbatim>\<open>int(s)\<close> in base ten: blanks around the text are dropped, one sign may lead,
  and the digits may be grouped by single underscores. The interpreter's optional bound
  on the number of digits it converts is a setting of the installation and is left out.
  The message of the error quotes the text between apostrophes.
\<close>

definition py_int :: "string \<Rightarrow> int outcome" where
  "py_int s =
     (let t = py_strip s;
          negative = (t \<noteq> [] \<and> hd t = CHR ''-'');
          body = (if t \<noteq> [] \<and> (hd t = CHR ''-'' \<or> hd t = CHR ''+'') then tl t else t);
          groups = split_on CHR ''_'' body
      in if list_all (\<lambda>g. g \<noteq> [] \<and> list_all is_digit g) groups
         then Return ((if negative then - 1 else 1) * int (nat_of_digits (concat groups)))
         else Raise (ValueError (''invalid literal for int() with base 10: '' @
                                 [CHR 0x27] @ s @ [CHR 0x27])))"

text \<open>
  \<^verbatim>\<open>eval\<close> is given a meaning on the comparisons this module builds from integers:
  operands are decimal integer literals (no leading zero unless all digits are zero),
  possibly negated, separated from the operators by single blanks. Every other text is
  outside the model.
\<close>

definition dec_literal :: "string \<Rightarrow> bool" where
  "dec_literal t =
     (t \<noteq> [] \<and> list_all is_digit t \<and> (list_all (\<lambda>c. c = CHR ''0'') t \<or> hd t \<noteq> CHR ''0''))"

definition int_operand :: "string \<Rightarrow> int option" where
  "int_operand t =
     (if t \<noteq> [] \<and> hd t = CHR ''-''
      then (if dec_literal (tl t) then Some (- int (nat_of_digits (tl t))) else None)
      else (if dec_literal t then Some (int (nat_of_digits t)) else None))"

definition compare :: "string \<Rightarrow> int \<Rightarrow> int \<Rightarrow> bool outcome" where
  "compare op x y =
     (if op = ''=='' then Return (x = y)
      else if op = ''<'' then Return (x < y)
      else if op = ''>'' then Return (x > y)
      else if op = ''<='' then Return (x \<le> y)
      else Unmodelled)"

definition py_eval :: "string \<Rightarrow> bool outcome" where
  "py_eval expr =
     (case split_on CHR '' '' expr of
        [a, op, b] \<Rightarrow>
          (case (int_operand a, int_operand b) of
             (Some x, Some y) \<Rightarrow> compare op x y
           | _ \<Rightarrow> Unmodelled)
      | [a, op1, b, op2, c] \<Rightarrow>
          (case (int_operand a, int_operand b, int_operand c) of
             (Some x, Some y, Some z) \<Rightarrow>
               bind (compare op1 x y) (\<lambda>l. bind (compare op2 y z) (\<lambda>r. Return (l \<and> r)))
           | _ \<Rightarrow> Unmodelled)
      | _ \<Rightarrow> Unmodelled)"

text \<open>
  The text an attribute contributes to an f-string. The text of a float and of a list of
  track objects is outside the model.
\<close>

fun fmt_val :: "pyval \<Rightarrow> string outcome" where
  "fmt_val (PyBool b) = Return (if b then ''True'' else ''False'')"
| "fmt_val (PyInt i) = Return (str_int i)"
| "fmt_val (PyStr s) = Return (fmt_str s)"
| "fmt_val (PyFloat x) = Unmodelled"
| "fmt_val (PyAudio as) = Unmodelled"
| "fmt_val (PySubtitle ss) = Unmodelled"

text \<open>
  \<^verbatim>\<open>self.__dict__.get(pred, None)\<close> followed by the test \<^verbatim>\<open>attr is None\<close>: an
  attribute that is absent and one that holds \<^verbatim>\<open>None\<close> are treated alike.
\<close>

definition lookup_attr :: "MediaInfo \<Rightarrow> string \<Rightarrow> pyval option" where
  "lookup_attr self pred =
     (case map_of (attrs self) pred of
        None \<Rightarrow> None
      | Some (PyStr None) \<Rightarrow> None
      | Some v \<Rightarrow> Some v)"

definition dquote :: string where
  "dquote = [CHR 0x22]"

text \<open>
  The end of \<^verbatim>\<open>eval_numeric\<close>: the expression is evaluated and a failed match is
  reported when \<^verbatim>\<open>verbose\<close> is set. The argument is the expression together with
  the current content of \<^verbatim>\<open>value\<close> and the text of the attribute.
\<close>

definition evaluate_expr ::
  "bool \<Rightarrow> string \<Rightarrow> (string \<times> string \<times> string) outcome \<Rightarrow> string list \<times> bool outcome" where
  "evaluate_expr verbose pred r =
     (case r of
        Raise e \<Rightarrow> ([], Raise e)
      | Unmodelled \<Rightarrow> ([], Unmodelled)
      | Return (expr, value, attr) \<Rightarrow>
          (case py_eval expr of
             Raise e \<Rightarrow> ([], Raise e)
           | Unmodelled \<Rightarrow> ([], Unmodelled)
           | Return b \<Rightarrow>
               if \<not> b then
                 (if verbose
                  then [''  >> predicate '' @ pred @ '' ('' @ dquote @ value @ dquote @
                        '') did not match '' @ attr]
                  else [],
                  Return False)
               else ([], Return True)))"

definition eval_numeric ::
  "bool \<Rightarrow> MediaInfo \<Rightarrow> string \<Rightarrow> string \<Rightarrow> string \<Rightarrow> string list \<times> bool outcome" where
  "eval_numeric verbose self rulename pred value =
     (case lookup_attr self pred of
        None \<Rightarrow>
          ([''Error: Rule '' @ dquote @ rulename @ dquote @ '' unknown attribute: '' @ pred @ '' ''],
           Raise (ValueError value))
      | Some attr \<Rightarrow>
          if CHR ''-'' \<in> set value then
            (case split_on CHR ''-'' value of
               [rangelow, rangehigh] \<Rightarrow>
                 evaluate_expr verbose pred
                   (bind (if pred = ''runtime''
                          then bind (py_int rangelow) (\<lambda>lo. bind (py_int rangehigh) (\<lambda>hi.
                                 Return (str_int (lo * 60), str_int (hi * 60))))
                          else Return (rangelow, rangehigh))
                      (\<lambda>(rangelow, rangehigh). bind (fmt_val attr) (\<lambda>a.
                         Return (rangelow @ '' <= '' @ a @ '' <= '' @ rangehigh, value, a))))
             | _ \<Rightarrow>
                 ([''Error: Rule '' @ dquote @ rulename @ dquote @ '' bad range expression: '' @
                   value @ '' ''],
                  Raise (ValueError value)))
          else if isnumeric value then
            evaluate_expr verbose pred
              (bind (if pred = ''runtime''
                     then bind (py_int value) (\<lambda>v. Return (str_int (v * 60)))
                     else Return value)
                 (\<lambda>value. bind (fmt_val attr) (\<lambda>a. Return (a @ '' == '' @ value, value, a))))
          else if value = [] then ([], Raise IndexError)
          else if hd value \<in> set ''<>'' then
            (let op = [hd value]; value = tl value in
             evaluate_expr verbose pred
               (bind (if pred = ''runtime''
                      then bind (py_int value) (\<lambda>v. Return (str_int (v * 60)))
                      else Return value)
                  (\<lambda>value. bind (fmt_val attr) (\<lambda>a.
                     Return (a @ '' '' @ op @ '' '' @ value, value, a)))))
          else
            ([''Error: Rule '' @ dquote @ rulename @ dquote @ '' valid value: '' @ value],
             Return False))"

section \<open>Notions used in the statements\<close>

text \<open>
  What the stream mapper is expected to produce, written without its loops: a track is
  kept when the inclusion list is empty or holds its language, and the exclusion list
  does not hold it; every kept track contributes one selection pair; the positions of
  the kept audio tracks in the override language are counted from 0 among the kept
  tracks.
\<close>

definition kept :: "string list \<Rightarrow> string list \<Rightarrow> 'a SubtitleTrack_scheme \<Rightarrow> bool" where
  "kept includes excludes s =
     ((includes = [] \<or> py_in (lang s) includes) \<and> \<not> py_in (lang s) excludes)"

definition map_tokens :: "'a SubtitleTrack_scheme list \<Rightarrow> string list" where
  "map_tokens ss = concat (map (\<lambda>s. [''-map'', ''0:'' @ fmt_str (track s)]) ss)"

definition override_positions :: "string \<Rightarrow> AudioTrack list \<Rightarrow> nat list" where
  "override_positions d ks = filter (\<lambda>j. lang (ks ! j) = Some d) [0..<length ks]"

definition first_position :: "string \<Rightarrow> AudioTrack list \<Rightarrow> nat" where
  "first_position d ks = length (takeWhile (\<lambda>s. lang s \<noteq> Some d) ks)"

definition disposition_tokens :: "nat list \<Rightarrow> string list" where
  "disposition_tokens js = concat (map (\<lambda>j. [''-disposition:a:'' @ str_nat j, ''default'']) js)"

definition or_empty :: "string list option \<Rightarrow> string list" where
  "or_empty xs = (case xs of None \<Rightarrow> [] | Some e \<Rightarrow> e)"

definition no_filters :: "Profile \<Rightarrow> bool" where
  "no_filters p =
     (included_audio p = [] \<and> or_empty (excluded_audio p) = [] \<and>
      included_subtitles p = [] \<and> or_empty (excluded_subtitles p) = [])"

definition kept_audio :: "Profile \<Rightarrow> info \<Rightarrow> AudioTrack list" where
  "kept_audio p i = filter (kept (included_audio p) (or_empty (excluded_audio p))) (audio i)"

definition kept_subtitle :: "Profile \<Rightarrow> info \<Rightarrow> SubtitleTrack list" where
  "kept_subtitle p i =
     filter (kept (included_subtitles p) (or_empty (excluded_subtitles p))) (subtitle i)"

definition default_dropped :: "Profile \<Rightarrow> info \<Rightarrow> bool" where
  "default_dropped p i =
     (\<exists>s \<in> set (audio i). \<not> kept (included_audio p) (or_empty (excluded_audio p)) s \<and> is_default s)"

definition audio_tokens :: "Profile \<Rightarrow> info \<Rightarrow> string list" where
  "audio_tokens p i =
     map_tokens (kept_audio p i) @
     (if default_dropped p i
      then (case default_audio p of
              None \<Rightarrow> []
            | Some d \<Rightarrow> disposition_tokens (override_positions d (kept_audio p i)))
      else [])"

definition subtitle_tokens :: "Profile \<Rightarrow> info \<Rightarrow> string list" where
  "subtitle_tokens p i = map_tokens (kept_subtitle p i)"

text \<open>Sample tracks, media descriptions and profiles for the concrete instances.\<close>

definition sample_info :: "AudioTrack list \<Rightarrow> SubtitleTrack list \<Rightarrow> info" where
  "sample_info as ss =
     \<lparr>path = ''movie.mkv'', vcodec = Some ''h264'', stream = Some ''0'',
      res_height = 1080, res_width = 1920, runtime = 6000, filesize_mb = 700, fps = 23,
      colorspace = Some ''yuv420p'', audio = as, subtitle = ss\<rparr>"

definition audio_track :: "string \<Rightarrow> string \<Rightarrow> string option \<Rightarrow> AudioTrack" where
  "audio_track n l d = \<lparr>track = Some n, lang = Some l, format = Some ''aac'', default = d\<rparr>"

definition subtitle_track :: "string \<Rightarrow> string \<Rightarrow> SubtitleTrack" where
  "subtitle_track n l = \<lparr>track = Some n, lang = Some l\<rparr>"

definition both_lists_profile :: Profile where
  "both_lists_profile =
     \<lparr>excluded_audio = Some [''eng''], excluded_subtitles = Some [''eng''],
      included_audio = [''eng''], included_subtitles = [''eng''],
      default_audio = None, default_subtitle = None\<rparr>"

definition include_profile :: "string list \<Rightarrow> Profile" where
  "include_profile ls =
     \<lparr>excluded_audio = None, excluded_subtitles = None,
      included_audio = ls, included_subtitles = [],
      default_audio = Some ''eng'', default_subtitle = None\<rparr>"

definition open_profile :: Profile where
  "open_profile =
     \<lparr>excluded_audio = None, excluded_subtitles = Some [],
      included_audio = [], included_subtitles = [],
      default_audio = None, default_subtitle = None\<rparr>"

section \<open>The stream mapper: proofs\<close>

lemma audio_loop_eq:
  "audio_loop ex (if inc = [] then None else Some inc) ss (seq_list, mapped, dr) =
     (seq_list @ map_tokens (filter (kept inc ex) ss),
      mapped @ filter (kept inc ex) ss,
      dr \<or> (\<exists>s \<in> set ss. \<not> kept inc ex s \<and> is_default s))"
  by (induction ss arbitrary: seq_list mapped dr)
     (auto simp: kept_def map_tokens_def track_id_def Let_def)

lemma subtitle_loop_eq:
  "subtitle_loop ex (if inc = [] then None else Some inc) ss (seq_list, mapped) =
     (seq_list @ map_tokens (filter (kept inc ex) ss), mapped @ filter (kept inc ex) ss)"
  by (induction ss arbitrary: seq_list mapped)
     (auto simp: kept_def map_tokens_def track_id_def Let_def)

lemma filter_upt_Suc:
  "filter P [0..<Suc n] = (if P 0 then [0] else []) @ map Suc (filter (\<lambda>j. P (Suc j)) [0..<n])"
proof -
  have "[0..<Suc n] = 0 # map Suc [0..<n]"
    by (simp add: upt_conv_Cons map_Suc_upt del: upt_Suc)
  then show ?thesis
    by (simp add: filter_map comp_def del: upt_Suc)
qed

lemma disposition_loop_eq:
  "disposition_loop d i ks seq_list =
     seq_list @ disposition_tokens (map (\<lambda>j. i + j) (override_positions d ks))"
proof (induction ks arbitrary: i seq_list)
  case Nil
  then show ?case by (simp add: override_positions_def disposition_tokens_def)
next
  case (Cons s ss)
  have "override_positions d (s # ss) =
          (if lang s = Some d then [0] else []) @ map Suc (override_positions d ss)"
    unfolding override_positions_def using filter_upt_Suc [of "\<lambda>j. lang ((s # ss) ! j) = Some d" "length ss"]
    by simp
  then show ?case
    using Cons.IH [of "Suc i"] by (simp add: disposition_tokens_def comp_def)
qed

lemma override_positions_hd:
  assumes "t \<in> set ks" "lang t = Some d"
  shows "override_positions d ks \<noteq> [] \<and> hd (override_positions d ks) = first_position d ks"
  using assms
proof (induction ks)
  case Nil
  then show ?case by simp
next
  case (Cons s ss)
  have eq: "override_positions d (s # ss) =
          (if lang s = Some d then [0] else []) @ map Suc (override_positions d ss)"
    unfolding override_positions_def using filter_upt_Suc [of "\<lambda>j. lang ((s # ss) ! j) = Some d" "length ss"]
    by simp
  show ?case
  proof (cases "lang s = Some d")
    case True
    then show ?thesis by (simp add: eq first_position_def)
  next
    case False
    with Cons.prems have "t \<in> set ss" by auto
    with Cons.IH Cons.prems(2) have "override_positions d ss \<noteq> [] \<and> hd (override_positions d ss) = first_position d ss"
      by blast
    with False show ?thesis by (simp add: eq first_position_def hd_map)
  qed
qed


lemma map_audio_streams_eq:
  "snd (map_audio_streams (audio i) (Some (or_empty (excluded_audio p))) (Some (included_audio p))
     (default_audio p)) = audio_tokens p i"
  by (auto simp: map_audio_streams_def audio_loop_eq audio_tokens_def kept_audio_def Let_def
       default_dropped_def disposition_loop_eq split: option.splits)

lemma map_subtitle_streams_eq:
  "map_subtitle_streams (subtitle i) (Some (or_empty (excluded_subtitles p)))
     (Some (included_subtitles p)) dl = subtitle_tokens p i"
  by (simp add: map_subtitle_streams_def subtitle_loop_eq subtitle_tokens_def kept_subtitle_def Let_def)

lemma ffmpeg_streams_shortcut:
  "no_filters p \<Longrightarrow> ffmpeg_streams mi p = ([], Return [''-map'', ''0''])"
  by (cases mi) (simp add: no_filters_def or_empty_def Let_def)

lemma ffmpeg_streams_valid:
  assumes "\<not> no_filters p"
  shows "snd (ffmpeg_streams (MediaInfo (Some i)) p) =
           Return ([''-map'', ''0:'' @ fmt_str (stream i)] @ audio_tokens p i @ subtitle_tokens p i)"
proof -
  have a: "snd (map_audio_streams (audio i) (Some (or_empty (excluded_audio p)))
             (Some (included_audio p)) (default_audio p)) = audio_tokens p i"
    by (rule map_audio_streams_eq)
  have s: "map_subtitle_streams (subtitle i) (Some (or_empty (excluded_subtitles p)))
             (Some (included_subtitles p)) (default_subtitle p) = subtitle_tokens p i"
    by (rule map_subtitle_streams_eq)
  from assms a s show ?thesis
    by (simp add: no_filters_def or_empty_def Let_def split_beta)
qed

lemmas sample_defs =
  sample_info_def audio_track_def subtitle_track_def both_lists_profile_def include_profile_def
  open_profile_def

lemmas stream_arg_defs =
  no_filters_def or_empty_def kept_audio_def kept_subtitle_def kept_def default_dropped_def
  audio_tokens_def subtitle_tokens_def map_tokens_def disposition_tokens_def
  override_positions_def first_position_def is_default_def

text \<open>
  Claim C1 says that a track whose language is on the inclusion list and on the exclusion
  list of its type is kept. The loops test the exclusion list after the inclusion list
  has let the track pass, so such a track is dropped, audio and subtitle alike: with
  \<^verbatim>\<open>eng\<close> on all four lists, an English audio track and an English subtitle
  track leave only the selection of the video stream.
\<close>

theorem C1_language_on_both_lists_is_dropped:
  "ffmpeg_streams
     (MediaInfo (Some (sample_info [audio_track ''1'' ''eng'' None] [subtitle_track ''2'' ''eng''])))
     both_lists_profile
   = ([], Return [''-map'', ''0:0''])"
  by (simp add: sample_defs map_audio_streams_def map_subtitle_streams_def is_default_def Let_def)

text \<open>
  Claim C2, as the code has it: when a dropped audio track was the default one and an
  override language is configured that some kept audio track carries, the result is the
  selection of the video stream, the selection pairs of the kept audio tracks, then one
  disposition pair for every kept audio track in the override language (in order, each
  naming the 0-based position of its track among the kept audio tracks), then the
  subtitle pairs. There is at least one such pair, the first one names the position of
  the first kept track in that language, and there are as many pairs as kept tracks in
  that language.
\<close>

theorem C2_default_override_positions:
  assumes "s \<in> set (audio i)"
      and "\<not> kept (included_audio p) (or_empty (excluded_audio p)) s"
      and "is_default s"
      and "default_audio p = Some d"
      and "t \<in> set (kept_audio p i)"
      and "lang t = Some d"
  shows "snd (ffmpeg_streams (MediaInfo (Some i)) p) =
           Return ([''-map'', ''0:'' @ fmt_str (stream i)] @
                   map_tokens (kept_audio p i) @
                   disposition_tokens (override_positions d (kept_audio p i)) @
                   subtitle_tokens p i)
         \<and> override_positions d (kept_audio p i) \<noteq> []
         \<and> hd (override_positions d (kept_audio p i)) = first_position d (kept_audio p i)
         \<and> length (override_positions d (kept_audio p i)) =
             length (filter (\<lambda>k. lang k = Some d) (kept_audio p i))"
proof -
  from assms(1-3) have dropped: "default_dropped p i"
    by (auto simp: default_dropped_def)
  have "py_in x [] = False" for x by (cases x) simp_all
  with assms(2) have "\<not> no_filters p"
    by (auto simp: no_filters_def kept_def)
  then have "snd (ffmpeg_streams (MediaInfo (Some i)) p) =
           Return ([''-map'', ''0:'' @ fmt_str (stream i)] @ audio_tokens p i @ subtitle_tokens p i)"
    by (rule ffmpeg_streams_valid)
  with dropped assms(4) have tokens: "snd (ffmpeg_streams (MediaInfo (Some i)) p) =
           Return ([''-map'', ''0:'' @ fmt_str (stream i)] @
                   map_tokens (kept_audio p i) @
                   disposition_tokens (override_positions d (kept_audio p i)) @
                   subtitle_tokens p i)"
    by (simp add: audio_tokens_def)
  have count: "length (override_positions d ks) = length (filter (\<lambda>k. lang k = Some d) ks)" for ks
  proof -
    have "map (\<lambda>j. ks ! j) (override_positions d ks) = filter (\<lambda>k. lang k = Some d) (map (\<lambda>j. ks ! j) [0..<length ks])"
      by (simp add: override_positions_def filter_map comp_def)
    then have "length (map (\<lambda>j. ks ! j) (override_positions d ks)) = length (filter (\<lambda>k. lang k = Some d) ks)"
      by (simp add: map_nth)
    then show ?thesis by simp
  qed
  from tokens override_positions_hd [OF assms(5,6)] count show ?thesis
    by simp
qed

text \<open>
  An instance: the French default track is dropped, Spanish and English are kept, and
  the override names position 1 (the English track among the kept ones), not its stream
  index 3.
\<close>

theorem C2_witness:
  "snd (ffmpeg_streams
          (MediaInfo (Some (sample_info
             [audio_track ''1'' ''fra'' (Some ''default''), audio_track ''2'' ''spa'' None,
              audio_track ''3'' ''eng'' None] [])))
          (include_profile [''spa'', ''eng'']))
   = Return [''-map'', ''0:0'', ''-map'', ''0:2'', ''-map'', ''0:3'', ''-disposition:a:1'', ''default'']"
proof -
  let ?i = "sample_info [audio_track ''1'' ''fra'' (Some ''default''), audio_track ''2'' ''spa'' None,
              audio_track ''3'' ''eng'' None] []"
  let ?p = "include_profile [''spa'', ''eng'']"
  have 1: "audio_track ''1'' ''fra'' (Some ''default'') \<in> set (audio ?i)"
    by (simp add: sample_defs)
  have 2: "\<not> kept (included_audio ?p) (or_empty (excluded_audio ?p)) (audio_track ''1'' ''fra'' (Some ''default''))"
    by (simp add: sample_defs stream_arg_defs)
  have 3: "is_default (audio_track ''1'' ''fra'' (Some ''default''))"
    by (simp add: sample_defs stream_arg_defs)
  have 4: "default_audio ?p = Some ''eng''"
    by (simp add: sample_defs)
  have 5: "audio_track ''3'' ''eng'' None \<in> set (kept_audio ?p ?i)"
    by (simp add: sample_defs stream_arg_defs)
  have 6: "lang (audio_track ''3'' ''eng'' None) = Some ''eng''"
    by (simp add: sample_defs)
  from C2_default_override_positions [OF 1 2 3 4 5 6] show ?thesis
    by (simp add: sample_defs stream_arg_defs str_nat.simps digit_char_def)
qed

text \<open>
  Claim C2 as stated asks for exactly one disposition pair. Two kept tracks in the
  override language give two pairs.
\<close>

theorem C2_counterexample:
  "snd (ffmpeg_streams
          (MediaInfo (Some (sample_info
             [audio_track ''1'' ''fra'' (Some ''default''), audio_track ''2'' ''eng'' None,
              audio_track ''3'' ''eng'' None] [])))
          (include_profile [''eng'']))
   = Return [''-map'', ''0:0'', ''-map'', ''0:2'', ''-map'', ''0:3'',
             ''-disposition:a:0'', ''default'', ''-disposition:a:1'', ''default'']"
  by (simp add: sample_defs map_audio_streams_def map_subtitle_streams_def is_default_def
        track_id_def Let_def str_nat.simps digit_char_def)

text \<open>
  Claim C6: with no inclusion and no exclusion configured for either track type the
  result is exactly the two tokens \<^verbatim>\<open>-map 0\<close>, for every object, valid or not;
  otherwise, for a valid object, it is the selection pair of the video stream, then the
  audio tokens, then the subtitle tokens.
\<close>

theorem C6_select_everything_or_enumerate:
  "(no_filters p \<longrightarrow> ffmpeg_streams mi p = ([], Return [''-map'', ''0''])) \<and>
   (\<not> no_filters p \<longrightarrow>
      snd (ffmpeg_streams (MediaInfo (Some i)) p) =
        Return ([''-map'', ''0:'' @ fmt_str (stream i)] @ audio_tokens p i @ subtitle_tokens p i))"
  using ffmpeg_streams_shortcut [of p mi] ffmpeg_streams_valid [of p i] by blast

text \<open>Both cases of C6 at concrete inputs.\<close>

theorem C6_witness:
  "ffmpeg_streams (MediaInfo None) open_profile = ([], Return [''-map'', ''0'']) \<and>
   snd (ffmpeg_streams
          (MediaInfo (Some (sample_info
             [audio_track ''1'' ''eng'' None, audio_track ''2'' ''fra'' None]
             [subtitle_track ''3'' ''eng'', subtitle_track ''4'' ''fra''])))
          (include_profile [''fra'']))
   = Return [''-map'', ''0:0'', ''-map'', ''0:2'', ''-map'', ''0:3'', ''-map'', ''0:4'']"
proof -
  have a: "no_filters open_profile"
    by (simp add: sample_defs stream_arg_defs)
  have b: "\<not> no_filters (include_profile [''fra''])"
    by (simp add: sample_defs stream_arg_defs)
  from C6_select_everything_or_enumerate [of open_profile "MediaInfo None"] a
  have "ffmpeg_streams (MediaInfo None) open_profile = ([], Return [''-map'', ''0''])"
    by blast
  moreover
  from C6_select_everything_or_enumerate [of "include_profile [''fra'']" _
        "sample_info [audio_track ''1'' ''eng'' None, audio_track ''2'' ''fra'' None]
             [subtitle_track ''3'' ''eng'', subtitle_track ''4'' ''fra'']"] b
  have "snd (ffmpeg_streams
          (MediaInfo (Some (sample_info
             [audio_track ''1'' ''eng'' None, audio_track ''2'' ''fra'' None]
             [subtitle_track ''3'' ''eng'', subtitle_track ''4'' ''fra''])))
          (include_profile [''fra'']))
   = Return [''-map'', ''0:0'', ''-map'', ''0:2'', ''-map'', ''0:3'', ''-map'', ''0:4'']"
    by (simp add: sample_defs stream_arg_defs)
  ultimately show ?thesis by blast
qed

text \<open>
  Claim C10: the accessor \<^verbatim>\<open>codec\<close> never returns, whatever the track holds, so it
  never yields the stored \<^verbatim>\<open>format\<close>; under any bound on the depth of the stack
  the call ends in a recursion error.
\<close>

lemma codec_no_result: "codec a = Some y \<Longrightarrow> False"
  by (rule codec.raw_induct [rotated 1, where P = "\<lambda>_ _. False"]) blast+

theorem C10_codec_never_returns:
  "codec a = None \<and> (\<forall>depth. codec_limited depth a = Raise RecursionError)"
proof
  show "codec a = None"
    using codec_no_result [of a] by (cases "codec a") auto
  show "\<forall>depth. codec_limited depth a = Raise RecursionError"
  proof
    fix depth
    show "codec_limited depth a = Raise RecursionError"
      by (induction depth) simp_all
  qed
qed

section \<open>The predicate evaluator: proofs\<close>

lemma digit_char_props:
  assumes "d < 10"
  shows "is_digit (digit_char d) \<and> digit_val (digit_char d) = d"
proof -
  have "list_all (\<lambda>k. is_digit (digit_char k) \<and> digit_val (digit_char k) = k) [0..<10]"
    by code_simp
  with assms show ?thesis
    by (simp add: list_all_iff)
qed

lemma str_nat_digits: "str_nat n \<noteq> [] \<and> list_all is_digit (str_nat n)"
proof (induction n rule: str_nat.induct)
  case (1 n)
  show ?case
  proof (cases "n < 10")
    case True
    then show ?thesis using digit_char_props [of n] by (simp add: str_nat.simps)
  next
    case False
    with "1.IH" digit_char_props [of "n mod 10"] show ?thesis
      by (subst (1 2) str_nat.simps) simp
  qed
qed

lemma nat_of_digits_snoc: "nat_of_digits (ds @ [c]) = 10 * nat_of_digits ds + digit_val c"
  by (simp add: nat_of_digits_def)

lemma nat_of_digits_str_nat: "nat_of_digits (str_nat n) = n"
proof (induction n rule: str_nat.induct)
  case (1 n)
  show ?case
  proof (cases "n < 10")
    case True
    then show ?thesis using digit_char_props [of n]
      by (simp add: str_nat.simps nat_of_digits_def)
  next
    case False
    with "1.IH" digit_char_props [of "n mod 10"] show ?thesis
      by (subst str_nat.simps) (simp add: nat_of_digits_snoc)
  qed
qed

lemma hd_str_nat: "0 < n \<Longrightarrow> hd (str_nat n) \<noteq> CHR ''0''"
proof (induction n rule: str_nat.induct)
  case (1 n)
  show ?case
  proof (cases "n < 10")
    case True
    have "list_all (\<lambda>k. hd (str_nat k) \<noteq> CHR ''0'') [1..<10]"
      by code_simp
    with True "1.prems" show ?thesis
      by (simp add: list_all_iff)
  next
    case False
    then have "0 < n div 10" by simp
    with "1.IH" False have "hd (str_nat (n div 10)) \<noteq> CHR ''0''" by simp
    with False str_nat_digits [of "n div 10"] show ?thesis
      by (subst str_nat.simps) simp
  qed
qed

lemma dec_literal_str_nat: "dec_literal (str_nat n)"
proof (cases "n = 0")
  case True
  then show ?thesis by (simp add: dec_literal_def str_nat.simps digit_char_def is_digit_def)
next
  case False
  with hd_str_nat [of n] str_nat_digits [of n] show ?thesis
    by (simp add: dec_literal_def)
qed

lemma digits_exclude: "list_all is_digit s \<Longrightarrow> \<not> is_digit c \<Longrightarrow> c \<notin> set s"
  by (auto simp: list_all_iff)

lemma split_on_absent: "c \<notin> set s \<Longrightarrow> split_on c s = [s]"
  by (induction s) auto

lemma split_on_append: "c \<notin> set a \<Longrightarrow> split_on c (a @ c # b) = a # split_on c b"
  by (induction a) auto

lemma py_strip_id:
  assumes "s \<noteq> []" "\<not> is_space (hd s)" "\<not> is_space (last s)"
  shows "py_strip s = s"
proof -
  from assms(1,2) have "dropWhile is_space s = s" by (cases s) auto
  moreover from assms(1,3) have "dropWhile is_space (rev s) = rev s"
    by (cases "rev s") (auto simp: last_rev [symmetric] simp del: last_rev)
  ultimately show ?thesis by (simp add: py_strip_def)
qed

lemma digit_not_space: "is_digit c \<Longrightarrow> \<not> is_space c"
  by (auto simp: is_digit_def is_space_def)

lemma py_int_digits:
  assumes "s \<noteq> []" "list_all is_digit s"
  shows "py_int s = Return (int (nat_of_digits s))"
proof -
  from assms have h: "is_digit (hd s)" and l: "is_digit (last s)"
    by (auto simp: list_all_iff)
  with assms have strip: "py_strip s = s"
    by (intro py_strip_id digit_not_space)
  from h have sign: "hd s \<noteq> CHR ''-''" "hd s \<noteq> CHR ''+''"
    by (auto simp: is_digit_def)
  have "\<not> is_digit CHR ''_''" by (simp add: is_digit_def)
  with assms(2) have "split_on CHR ''_'' s = [s]"
    by (intro split_on_absent digits_exclude)
  with strip sign assms show ?thesis
    by (simp add: py_int_def)
qed

lemma py_int_str_nat: "py_int (str_nat n) = Return (int n)"
  using py_int_digits [of "str_nat n"] str_nat_digits [of n] by (simp add: nat_of_digits_str_nat)

lemma int_operand_str_int: "int_operand (str_int i) = Some i"
proof (cases "i < 0")
  case True
  then show ?thesis
    by (simp add: int_operand_def str_int_def dec_literal_str_nat nat_of_digits_str_nat)
next
  case False
  have "is_digit (hd (str_nat (nat i)))"
    using str_nat_digits [of "nat i"] by (cases "str_nat (nat i)") auto
  then have "hd (str_nat (nat i)) \<noteq> CHR ''-''" by (auto simp: is_digit_def)
  with False show ?thesis
    by (simp add: int_operand_def str_int_def dec_literal_str_nat nat_of_digits_str_nat)
qed

lemma str_int_no_blank: "CHR '' '' \<notin> set (str_int i)"
proof -
  have "\<not> is_digit CHR '' ''" by (simp add: is_digit_def)
  then have "CHR '' '' \<notin> set (str_nat n)" for n
    using str_nat_digits [of n] by (intro digits_exclude) auto
  then show ?thesis by (simp add: str_int_def)
qed

lemma py_eval_range:
  "py_eval (str_int a @ '' <= '' @ str_int b @ '' <= '' @ str_int c) = Return (a \<le> b \<and> b \<le> c)"
proof -
  have "split_on CHR '' '' (str_int a @ '' <= '' @ str_int b @ '' <= '' @ str_int c) =
          [str_int a, ''<='', str_int b, ''<='', str_int c]"
    using split_on_append [OF str_int_no_blank, of a] split_on_append [OF str_int_no_blank, of b]
      split_on_absent [OF str_int_no_blank, of c]
    by simp
  then show ?thesis
    by (simp add: py_eval_def int_operand_str_int compare_def)
qed

lemma py_eval_binary:
  assumes "CHR '' '' \<notin> set op"
  shows "py_eval (str_int a @ '' '' @ op @ '' '' @ str_int b) = compare op a b"
proof -
  have "split_on CHR '' '' (str_int a @ '' '' @ op @ '' '' @ str_int b) = [str_int a, op, str_int b]"
    using split_on_append [OF str_int_no_blank, of a] split_on_append [OF assms]
      split_on_absent [OF str_int_no_blank, of b]
    by simp
  then show ?thesis
    by (simp add: py_eval_def int_operand_str_int)
qed


lemma lookup_runtime: "lookup_attr (MediaInfo (Some i)) ''runtime'' = Some (PyInt (runtime i))"
  by (simp add: lookup_attr_def)

lemma str_nat_no_dash: "CHR ''-'' \<notin> set (str_nat n)"
proof -
  have "\<not> is_digit CHR ''-''" by (simp add: is_digit_def)
  then show ?thesis using str_nat_digits [of n] by (intro digits_exclude) auto
qed

lemma str_int_nat: "str_int (int n) = str_nat n"
  by (simp add: str_int_def)

lemma eval_numeric_runtime_range:
  "snd (eval_numeric verbose (MediaInfo (Some i)) rulename ''runtime'' (str_nat lo @ ''-'' @ str_nat hi)) =
     Return (int lo * 60 \<le> runtime i \<and> runtime i \<le> int hi * 60)"
proof -
  have sp: "split_on CHR ''-'' (str_nat lo @ CHR ''-'' # str_nat hi) = [str_nat lo, str_nat hi]"
    using split_on_append [OF str_nat_no_dash, of lo "str_nat hi"] split_on_absent [OF str_nat_no_dash, of hi]
    by simp
  show ?thesis
    by (simp add: eval_numeric_def lookup_runtime sp py_int_str_nat evaluate_expr_def
          py_eval_range [simplified])
qed

lemma eval_numeric_runtime_equal:
  "snd (eval_numeric verbose (MediaInfo (Some i)) rulename ''runtime'' (str_nat n)) =
     Return (runtime i = int n * 60)"
proof -
  have num: "isnumeric (str_nat n)"
    using str_nat_digits [of n] by (simp add: isnumeric_def)
  have "py_eval (str_int (runtime i) @ '' '' @ ''=='' @ '' '' @ str_int (int n * 60)) =
          compare ''=='' (runtime i) (int n * 60)"
    by (rule py_eval_binary) simp
  then show ?thesis
    by (simp add: eval_numeric_def lookup_runtime str_nat_no_dash num py_int_str_nat
          evaluate_expr_def compare_def)
qed

lemma eval_numeric_runtime_compare:
  assumes "c = CHR ''<'' \<or> c = CHR ''>''"
  shows "snd (eval_numeric verbose (MediaInfo (Some i)) rulename ''runtime'' (c # str_nat n)) =
     Return (if c = CHR ''<'' then runtime i < int n * 60 else runtime i > int n * 60)"
proof -
  from assms have nd: "\<not> is_digit c" by (auto simp: is_digit_def)
  then have num: "\<not> isnumeric (c # str_nat n)"
    by (simp add: isnumeric_def)
  from assms have dash: "CHR ''-'' \<notin> set (c # str_nat n)"
    using str_nat_no_dash [of n] by auto
  have "py_eval (str_int (runtime i) @ '' '' @ [c] @ '' '' @ str_int (int n * 60)) =
          compare [c] (runtime i) (int n * 60)"
    using assms by (intro py_eval_binary) auto
  with assms show ?thesis
    using dash num
    by (auto simp: eval_numeric_def lookup_runtime py_int_str_nat
          evaluate_expr_def compare_def Let_def)
qed

lemma eval_numeric_unrecognised:
  assumes "lookup_attr self pred = Some attr"
      and "CHR ''-'' \<notin> set value" "\<not> isnumeric value" "value \<noteq> []"
      and "hd value \<noteq> CHR ''<''" "hd value \<noteq> CHR ''>''"
  shows "eval_numeric verbose self rulename pred value =
           ([''Error: Rule '' @ dquote @ rulename @ dquote @ '' valid value: '' @ value],
            Return False)"
  using assms by (simp add: eval_numeric_def)

text \<open>
  Claim C3, as the code has it: for a name that is not an attribute of the object, a
  diagnostic naming the rule and the attribute is printed and a \<^verbatim>\<open>ValueError\<close> is
  raised whose argument is the value expression.
\<close>

theorem C3_unknown_attribute_raises:
  assumes "pred \<notin> set (map fst (attrs self))"
  shows "eval_numeric verbose self rulename pred value =
           ([''Error: Rule '' @ dquote @ rulename @ dquote @ '' unknown attribute: '' @ pred @ '' ''],
            Raise (ValueError value))
         \<and> sublist rulename
              (''Error: Rule '' @ dquote @ rulename @ dquote @ '' unknown attribute: '' @ pred @ '' '')
         \<and> sublist pred
              (''Error: Rule '' @ dquote @ rulename @ dquote @ '' unknown attribute: '' @ pred @ '' '')"
proof -
  from assms have "map_of (attrs self) pred = None"
    by (simp add: map_of_eq_None_iff)
  then have "lookup_attr self pred = None"
    by (simp add: lookup_attr_def)
  then have "eval_numeric verbose self rulename pred value =
           ([''Error: Rule '' @ dquote @ rulename @ dquote @ '' unknown attribute: '' @ pred @ '' ''],
            Raise (ValueError value))"
    by (simp add: eval_numeric_def)
  moreover have "sublist rulename
      ((''Error: Rule '' @ dquote) @ rulename @ (dquote @ '' unknown attribute: '' @ pred @ '' ''))"
    by (rule sublist_appendI)
  moreover have "sublist pred
      ((''Error: Rule '' @ dquote @ rulename @ dquote @ '' unknown attribute: '') @ pred @ '' '')"
    by (rule sublist_appendI)
  ultimately show ?thesis by simp
qed

text \<open>
  An instance: \<^verbatim>\<open>height\<close> is not an attribute (the height is stored as
  \<^verbatim>\<open>res_height\<close>).
\<close>

theorem C3_witness:
  "eval_numeric False (MediaInfo (Some (sample_info [] []))) ''tall'' ''height'' ''>720'' =
     ([''Error: Rule '' @ dquote @ ''tall'' @ dquote @ '' unknown attribute: height ''],
      Raise (ValueError ''>720''))"
proof -
  have "''height'' \<notin> set (map fst (attrs (MediaInfo (Some (sample_info [] [])))))"
    by simp
  from C3_unknown_attribute_raises [OF this, of False "''tall''" "''>720''"] show ?thesis
    by simp
qed

text \<open>
  Claim C3 as stated has the raised error identify the rule and the attribute. The
  raised error carries the value expression only; here it mentions neither name.
\<close>

theorem C3_counterexample:
  "snd (eval_numeric False (MediaInfo (Some (sample_info [] []))) ''tall'' ''height'' ''>720'') =
     Raise (ValueError ''>720'')
   \<and> \<not> sublist ''tall'' ''>720'' \<and> \<not> sublist ''height'' ''>720''"
  by (simp add: eval_numeric_def lookup_attr_def sublist_Cons_right)

text \<open>
  Claim C4: for the attribute \<^verbatim>\<open>runtime\<close> every number of the value expression is
  multiplied by 60 before the comparison with the stored seconds, in the range form
  (inclusive at both ends), the equality form and both comparison forms, for all numbers
  written as Python prints them; and \<^verbatim>\<open>90-120\<close> matches 6000 seconds and does not
  match 8000 seconds.
\<close>

theorem C4_runtime_minutes_to_seconds:
  "snd (eval_numeric verbose (MediaInfo (Some i)) rulename ''runtime'' (str_nat lo @ ''-'' @ str_nat hi)) =
     Return (int lo * 60 \<le> runtime i \<and> runtime i \<le> int hi * 60)
   \<and> snd (eval_numeric verbose (MediaInfo (Some i)) rulename ''runtime'' (str_nat n)) =
       Return (runtime i = int n * 60)
   \<and> snd (eval_numeric verbose (MediaInfo (Some i)) rulename ''runtime'' (''<'' @ str_nat n)) =
       Return (runtime i < int n * 60)
   \<and> snd (eval_numeric verbose (MediaInfo (Some i)) rulename ''runtime'' (''>'' @ str_nat n)) =
       Return (int n * 60 < runtime i)
   \<and> snd (eval_numeric verbose (MediaInfo (Some (i\<lparr>runtime := 6000\<rparr>))) rulename ''runtime'' ''90-120'') =
       Return True
   \<and> snd (eval_numeric verbose (MediaInfo (Some (i\<lparr>runtime := 8000\<rparr>))) rulename ''runtime'' ''90-120'') =
       Return False"
proof -
  have lit: "str_nat 90 = ''90''" "str_nat 120 = ''120''"
    by (simp_all add: str_nat.simps digit_char_def)
  have a: "snd (eval_numeric verbose (MediaInfo (Some (i\<lparr>runtime := 6000\<rparr>))) rulename ''runtime'' ''90-120'') =
       Return True"
    using eval_numeric_runtime_range [of verbose "i\<lparr>runtime := 6000\<rparr>" rulename 90 120]
    by (simp add: lit)
  have b: "snd (eval_numeric verbose (MediaInfo (Some (i\<lparr>runtime := 8000\<rparr>))) rulename ''runtime'' ''90-120'') =
       Return False"
    using eval_numeric_runtime_range [of verbose "i\<lparr>runtime := 8000\<rparr>" rulename 90 120]
    by (simp add: lit)
  show ?thesis
    using eval_numeric_runtime_range [of verbose i rulename lo hi]
      eval_numeric_runtime_equal [of verbose i rulename n]
      eval_numeric_runtime_compare [of "CHR ''<''" verbose i rulename n]
      eval_numeric_runtime_compare [of "CHR ''>''" verbose i rulename n]
      a b
    by simp
qed

text \<open>
  Claim C8 says that a value expression of none of the three forms never makes
  \<^verbatim>\<open>eval_numeric\<close> raise. The empty text is of none of the three forms, and for it
  the test of the leading character reads \<^verbatim>\<open>value[0]\<close> of an empty string: the call
  raises \<^verbatim>\<open>IndexError\<close> and prints nothing.
\<close>

theorem C8_empty_value_raises:
  "eval_numeric verbose (MediaInfo (Some i)) rulename ''fps'' [] = ([], Raise IndexError)"
  by (simp add: eval_numeric_def lookup_attr_def isnumeric_def)

end
